theory Spec2Isabelle
  imports Complex_Main
begin

section \<open>The miniLUT viewer \<^verbatim>\<open>minilv.py\<close>\<close>

text \<open>
  The script reads a flat binary table of 32-bit floats, reshapes it to four dimensions
  (band, rtoa, tau, altitude), and plots rse = f(rtoa) for some values of tau, warning for
  every curve that is not strictly increasing. Table values and axis values are modelled
  as \<^typ>\<open>real\<close>; the table values are only ever subtracted pairwise and compared with 0.
\<close>

subsection \<open>Exceptions, observable events, process outcome\<close>

datatype exn =
    ValueError
  | FileNotFoundError
  | PermissionError
  | IndexError
  | UnboundLocalError
  | OSError

text \<open>
  What a run does that can be observed from outside: lines printed on standard output, the
  input file being opened, and the calls to the plotting backend (title with the two values
  it formats, the dashed identity line between two corners, one curve per value of tau with
  its abscissae, ordinates and label, the legend, saving, the interactive window).
\<close>

datatype event =
    Print string
  | Open_file string
  | Title int real
  | Plot_identity real real
  | Plot_curve "real list" "real list" string
  | Legend
  | Savefig string
  | Show

datatype outcome = Exit int | Uncaught exn

text \<open>The interpreter ends with status 1 on an exception nobody caught.\<close>

fun exit_status :: "outcome \<Rightarrow> int" where
  "exit_status (Exit n) = n"
| "exit_status (Uncaught e) = 1"

subsection \<open>Python and numpy primitives\<close>

text \<open>\<^verbatim>\<open>str(n)\<close> for an integer.\<close>

definition digit_char :: "nat \<Rightarrow> char" where
  "digit_char n = ''0123456789'' ! n"

fun str_nat :: "nat \<Rightarrow> string" where
  "str_nat n = (if n < 10 then [digit_char n] else str_nat (n div 10) @ [digit_char (n mod 10)])"

declare str_nat.simps [simp del]

definition str_int :: "int \<Rightarrow> string" where
  "str_int i = (if i < 0 then CHR ''-'' # str_nat (nat (- i)) else str_nat (nat i))"

text \<open>
  Indexing a sequence of length \<open>n\<close> with an integer: a negative index counts from the end,
  and an index outside \<open>[-n, n)\<close> raises IndexError (Python lists and numpy arrays alike).
\<close>

definition py_index :: "nat \<Rightarrow> int \<Rightarrow> exn + nat" where
  "py_index n i =
     (if 0 \<le> i \<and> i < int n then Inr (nat i)
      else if - int n \<le> i \<and> i < 0 then Inr (nat (i + int n))
      else Inl IndexError)"

definition getitem :: "'a list \<Rightarrow> int \<Rightarrow> exn + 'a" where
  "getitem xs i = (case py_index (length xs) i of Inl e \<Rightarrow> Inl e | Inr k \<Rightarrow> Inr (xs ! k))"

text \<open>
  \<^verbatim>\<open>np.arange(start, stop, step)\<close> has \<open>ceil((stop - start) / step)\<close> entries
  \<open>start + i * step\<close>; \<^verbatim>\<open>np.linspace(start, stop, num)\<close> has \<open>num\<close> entries from
  \<open>start\<close> to \<open>stop\<close> inclusive.
\<close>

definition arange :: "real \<Rightarrow> real \<Rightarrow> real \<Rightarrow> real list" where
  "arange start stop step =
     map (\<lambda>i. start + real i * step) [0 ..< nat \<lceil>(stop - start) / step\<rceil>]"

definition linspace :: "real \<Rightarrow> real \<Rightarrow> nat \<Rightarrow> real list" where
  "linspace start stop num =
     map (\<lambda>i. start + real i * ((stop - start) / real (num - 1))) [0 ..< num]"

text \<open>\<^verbatim>\<open>np.diff(x)\<close>: the differences \<open>x[i+1] - x[i]\<close>.\<close>

fun diff :: "real list \<Rightarrow> real list" where
  "diff (x # y # ys) = (y - x) # diff (y # ys)"
| "diff xs = []"

text \<open>
  \<^verbatim>\<open>"%4.2f" % x\<close>: two decimals, the exact value rounded half to even; the minimal
  width 4 is always reached.
\<close>

definition round_half_even :: "real \<Rightarrow> int" where
  "round_half_even x =
     (let q = \<lfloor>x\<rfloor>; r = x - of_int q
      in if r < 1/2 then q else if 1/2 < r then q + 1 else if even q then q else q + 1)"

definition two_digits :: "nat \<Rightarrow> string" where
  "two_digits n = [digit_char (n div 10), digit_char (n mod 10)]"

definition fmt_2f :: "real \<Rightarrow> string" where
  "fmt_2f x =
     (let c = nat (round_half_even (\<bar>x\<bar> * 100))
      in (if x < 0 then ''-'' else '''') @ str_nat (c div 100) @ ''.'' @ two_digits (c mod 100))"

subsection \<open>The four-dimensional table\<close>

record ndarray =
  shape :: "nat \<times> nat \<times> nat \<times> nat"
  data :: "real list"

text \<open>
  \<^verbatim>\<open>fdata.reshape(a, b, c, d)\<close> on a flat array: ValueError unless the element count
  is the product of the dimensions; the data keep their order (C order, last index fastest).
\<close>

definition reshape :: "real list \<Rightarrow> nat \<Rightarrow> nat \<Rightarrow> nat \<Rightarrow> nat \<Rightarrow> exn + ndarray" where
  "reshape fdata a b c d =
     (if length fdata = a * b * c * d then Inr \<lparr>shape = (a, b, c, d), data = fdata\<rparr>
      else Inl ValueError)"

text \<open>\<^verbatim>\<open>minilut[band, :, t, level]\<close>: the values along the second axis.\<close>

definition slice :: "ndarray \<Rightarrow> int \<Rightarrow> int \<Rightarrow> int \<Rightarrow> exn + real list" where
  "slice m band t level =
     (case shape m of (nb, nr, nt, nl) \<Rightarrow>
        (case py_index nb band of Inl e \<Rightarrow> Inl e | Inr b \<Rightarrow>
        (case py_index nt t of Inl e \<Rightarrow> Inl e | Inr k \<Rightarrow>
        (case py_index nl level of Inl e \<Rightarrow> Inl e | Inr l \<Rightarrow>
           Inr (map (\<lambda>r. data m ! (((b * nr + r) * nt + k) * nl + l)) [0 ..< nr])))))"

subsection \<open>The axes set up by \<^verbatim>\<open>main\<close>\<close>

definition nband :: "real list" where
  "nband = arange 0 13 1"

definition vband :: "int list" where
  "vband = [444, 496, 560, 664, 704, 740, 782, 832, 865, 944, 1373, 1613, 2198]"

definition rtoa :: "real list" where
  "rtoa = arange (-0.2) 1.2 0.07"

definition tau15 :: "real list" where
  "tau15 = linspace 0 1.5 25"

definition tau30 :: "real list" where
  "tau30 = tau15 @ [2.0, 3.0]"

definition alt :: "real list" where
  "alt = arange 0 3100 1000"

subsection \<open>The monotony test of \<^verbatim>\<open>miniplot\<close>\<close>

text \<open>\<^verbatim>\<open>np.all(np.diff(s) > 0)\<close>\<close>

definition monotony :: "real list \<Rightarrow> bool" where
  "monotony s = list_all (\<lambda>d. d > 0) (diff s)"

subsection \<open>\<^verbatim>\<open>miniplot\<close>\<close>

text \<open>\<^verbatim>\<open>min(rtoa)\<close>, \<^verbatim>\<open>max(rtoa)\<close>: ValueError on an empty sequence.\<close>

definition py_min :: "real list \<Rightarrow> exn + real" where
  "py_min xs = (case xs of [] \<Rightarrow> Inl ValueError | x # ys \<Rightarrow> Inr (fold min ys x))"

definition py_max :: "real list \<Rightarrow> exn + real" where
  "py_max xs = (case xs of [] \<Rightarrow> Inl ValueError | x # ys \<Rightarrow> Inr (fold max ys x))"

text \<open>
  The AOT sampling: the list chosen from \<open>dims\<close>, overridden by \<open>showall\<close>. With another
  \<open>dims\<close> and no \<open>showall\<close> the name \<open>tau_sampling\<close> is unbound when the loop reads it.
\<close>

definition tau_sampling :: "string \<Rightarrow> bool \<Rightarrow> real list \<Rightarrow> exn + int list" where
  "tau_sampling dims showall ta =
     (let s0 = (if dims = ''LUT30'' then Some [0, 8, 16, 24, 25, 26]
                else if dims = ''LUT15'' then Some [0, 8, 16, 24]
                else None);
          s1 = (if showall then Some (map int [0 ..< length ta]) else s0)
      in case s1 of None \<Rightarrow> Inl UnboundLocalError | Some ts \<Rightarrow> Inr ts)"

definition nonmonotone_warning :: "real \<Rightarrow> event" where
  "nonmonotone_warning v = Print (''WARNING: non-monotone fitting for AOT='' @ fmt_2f v)"

text \<open>
  The loop on AOT. Each turn reads the slice and \<open>tau[t]\<close> (IndexError out of range), draws
  the curve (the backend raises ValueError when abscissae and ordinates differ in length),
  and prints a warning when the slice is not strictly increasing. An exception ends the
  loop; what was drawn and printed before stays.
\<close>

fun plot_loop ::
  "real list \<Rightarrow> real list \<Rightarrow> ndarray \<Rightarrow> int \<Rightarrow> int \<Rightarrow> int list \<Rightarrow> event list \<times> exn option" where
  "plot_loop rt ta m b l [] = ([], None)"
| "plot_loop rt ta m b l (t # ts) =
     (case slice m b t l of Inl e \<Rightarrow> ([], Some e) | Inr s \<Rightarrow>
     (case getitem ta t of Inl e \<Rightarrow> ([], Some e) | Inr v \<Rightarrow>
        if length s \<noteq> length rt then ([], Some ValueError)
        else
          (let evs = Plot_curve rt s (''AOT='' @ fmt_2f v) #
                     (if \<not> monotony s then [nonmonotone_warning v] else [])
           in case plot_loop rt ta m b l ts of (evs', r) \<Rightarrow> (evs @ evs', r))))"

text \<open>
  The end of \<open>miniplot\<close>, once the loop is through: the legend, \<^verbatim>\<open>pl.savefig\<close> inside
  its \<^verbatim>\<open>try\<close> (a PermissionError is caught and a warning printed, any other exception
  goes up), and the interactive window when \<open>verbose\<close>. The first argument is the outcome
  of \<^verbatim>\<open>pl.savefig\<close> for a file name (\<open>None\<close>: saved).
\<close>

definition save_and_show ::
  "(string \<Rightarrow> exn option) \<Rightarrow> string \<Rightarrow> bool \<Rightarrow> event list \<Rightarrow> event list \<times> exn option" where
  "save_and_show save filename verb drawn =
     (case save filename of
        None \<Rightarrow> (drawn @ [Legend, Savefig filename] @ (if verb then [Show] else []), None)
      | Some e \<Rightarrow>
          if e = PermissionError
          then (drawn @ [Legend, Savefig filename,
                  Print ''WARNING: write permission missing, couldn't save figure''] @
                (if verb then [Show] else []), None)
          else (drawn @ [Legend, Savefig filename], Some e))"

text \<open>
  \<^verbatim>\<open>miniplot(rtoa, tau, minilut, alt, vband, filename, band, level, dims, verbose, showall)\<close>,
  with the outcome of \<^verbatim>\<open>pl.savefig\<close> as first argument. The title reads
  \<open>vband[band]\<close> and \<open>alt[level]\<close>, the axis limits \<open>min(rtoa)\<close> and \<open>max(rtoa)\<close>.
\<close>

definition miniplot ::
  "(string \<Rightarrow> exn option) \<Rightarrow> real list \<Rightarrow> real list \<Rightarrow> ndarray \<Rightarrow> real list \<Rightarrow> int list \<Rightarrow>
   string \<Rightarrow> int \<Rightarrow> int \<Rightarrow> string \<Rightarrow> bool \<Rightarrow> bool \<Rightarrow> event list \<times> exn option" where
  "miniplot save rt ta m al vb filename b l dims verb showall =
     (case getitem vb b of Inl e \<Rightarrow> ([], Some e) | Inr wl \<Rightarrow>
     (case getitem al l of Inl e \<Rightarrow> ([], Some e) | Inr z \<Rightarrow>
     (case py_min rt of Inl e \<Rightarrow> ([Title wl z], Some e) | Inr lo \<Rightarrow>
     (case py_max rt of Inl e \<Rightarrow> ([Title wl z], Some e) | Inr hi \<Rightarrow>
     (let pre = [Title wl z, Plot_identity lo hi]
      in case tau_sampling dims showall ta of Inl e \<Rightarrow> (pre, Some e) | Inr ts \<Rightarrow>
        (case plot_loop rt ta m b l ts of
           (evs, Some e) \<Rightarrow> (pre @ evs, Some e)
         | (evs, None) \<Rightarrow> save_and_show save filename verb (pre @ evs)))))))"

subsection \<open>\<^verbatim>\<open>main\<close>\<close>

record args =
  FILE :: string
  verbose :: bool
  band :: int
  level :: int
  all :: bool

text \<open>
  The world outside: what opening and reading the file as 32-bit floats gives (the elements,
  or the exception raised), and what saving a figure under a name gives.
\<close>

record world =
  read_file :: "string \<Rightarrow> exn + real list"
  savefig :: "string \<Rightarrow> exn option"

definition exn_class :: "exn \<Rightarrow> string" where
  "exn_class e = ''<class '' @ [CHR 0x27] @
     (case e of ValueError \<Rightarrow> ''ValueError'' | FileNotFoundError \<Rightarrow> ''FileNotFoundError''
      | PermissionError \<Rightarrow> ''PermissionError'' | IndexError \<Rightarrow> ''IndexError''
      | UnboundLocalError \<Rightarrow> ''UnboundLocalError'' | OSError \<Rightarrow> ''OSError'') @
     [CHR 0x27] @ ''>''"

text \<open>
  The body of the \<^verbatim>\<open>try\<close>: open, read, reshape to the table up to AOT 3.0. The first
  component is \<open>fdata\<close> when the read bound it.
\<close>

definition try_body :: "world \<Rightarrow> args \<Rightarrow> real list option \<times> (exn + ndarray)" where
  "try_body w a =
     (case read_file w (FILE a) of
        Inl e \<Rightarrow> (None, Inl e)
      | Inr fdata \<Rightarrow>
          (Some fdata, reshape fdata (length nband) (length rtoa) (length tau30) (length alt)))"

definition fallback_warning :: event where
  "fallback_warning = Print ''WARNING: bad minilut dimensions, trying with AOT->1.5''"

text \<open>
  The \<^verbatim>\<open>try\<close> with its handlers. The result is either the end of the process or the
  table with the tau axis and the flag that go to the plot. An exception raised inside the
  ValueError handler is not caught by the handlers after it.
\<close>

definition load :: "world \<Rightarrow> args \<Rightarrow> event list \<times> (outcome + ndarray \<times> real list \<times> string)" where
  "load w a =
     (case try_body w a of
        (fd, Inr minilut) \<Rightarrow>
          (Open_file (FILE a) #
           (if verbose a then [Print (''INFO: successfuly opened '' @ FILE a)] else []),
           Inr (minilut, tau30, ''LUT30''))
      | (fd, Inl e) \<Rightarrow>
          if e = ValueError then
            (case fd of
               None \<Rightarrow> ([Open_file (FILE a), fallback_warning], Inl (Uncaught UnboundLocalError))
             | Some fdata \<Rightarrow>
                 (case reshape fdata (length nband) (length rtoa) (length tau15) (length alt) of
                    Inl e' \<Rightarrow> ([Open_file (FILE a), fallback_warning], Inl (Uncaught e'))
                  | Inr minilut \<Rightarrow>
                      ([Open_file (FILE a), fallback_warning], Inr (minilut, tau15, ''LUT15''))))
          else if e = FileNotFoundError then
            ([Open_file (FILE a), Print (''ERROR: file '' @ FILE a @ '' not found...'')],
             Inl (Exit 1))
          else
            ([Open_file (FILE a), Print (''ERROR: Unexpected error: '' @ exn_class e)],
             Inl (Uncaught e)))"

text \<open>\<^verbatim>\<open>args.FILE[:-4]+"_B"+str(args.band+1)+"_L"+str(args.level)+".png"\<close>\<close>

definition fname :: "args \<Rightarrow> string" where
  "fname a = take (length (FILE a) - 4) (FILE a) @ ''_B'' @ str_int (band a + 1) @
             ''_L'' @ str_int (level a) @ ''.png''"

definition main :: "world \<Rightarrow> args \<Rightarrow> event list \<times> outcome" where
  "main w a =
     (if band a > int (length nband) then ([Print ''ERROR: Band number out of range''], Exit 1)
      else if level a > int (length alt) then ([Print ''ERROR: Level out of range''], Exit 1)
      else
        (let info = (if verbose a
                     then [Print (''INFO: working with band B'' @ str_int (band a + 1))] else [])
         in case load w a of
              (evs, Inl out) \<Rightarrow> (info @ evs, out)
            | (evs, Inr (minilut, ta, ftau)) \<Rightarrow>
                (case miniplot (savefig w) rtoa ta minilut alt vband (fname a)
                        (band a) (level a) ftau (verbose a) (all a) of
                   (pevs, Some e) \<Rightarrow> (info @ evs @ pevs, Uncaught e)
                 | (pevs, None) \<Rightarrow> (info @ evs @ pevs @ [Print ''INFO: Done...''], Exit 0))))"

subsection \<open>Reading the events of a run\<close>

text \<open>The events that are calls to the plotting backend.\<close>

fun plotting :: "event \<Rightarrow> bool" where
  "plotting (Print s) = False"
| "plotting (Open_file f) = False"
| "plotting e = True"

text \<open>The printed lines that start like the warning of the monotony test.\<close>

fun is_nonmonotone_warning :: "event \<Rightarrow> bool" where
  "is_nonmonotone_warning (Print s) =
     (take (length ''WARNING: non-monotone fitting for AOT='') s =
        ''WARNING: non-monotone fitting for AOT='')"
| "is_nonmonotone_warning e = False"

section \<open>Properties\<close>

subsection \<open>Axis lengths\<close>

lemma length_nband: "length nband = 13"
  by (simp add: nband_def arange_def)

lemma length_rtoa: "length rtoa = 20"
  by (simp add: rtoa_def arange_def)

lemma length_tau15: "length tau15 = 25"
  by (simp add: tau15_def linspace_def)

lemma length_tau30: "length tau30 = 27"
  by (simp add: tau30_def length_tau15)

lemma length_alt: "length alt = 4"
  by (simp add: alt_def arange_def)

lemma length_vband: "length vband = 13"
  by (simp add: vband_def)

subsection \<open>Monotony\<close>

lemma monotony_Cons2: "monotony (x # y # ys) \<longleftrightarrow> x < y \<and> monotony (y # ys)"
  by (simp add: monotony_def)

lemma monotony_iff_pairs:
  "monotony s \<longleftrightarrow> (\<forall>i. Suc i < length s \<longrightarrow> s ! i < s ! Suc i)"
proof (induction s rule: diff.induct)
  case (1 x y ys)
  show ?case
  proof
    assume "monotony (x # y # ys)"
    then have xy: "x < y" and rest: "\<forall>i. Suc i < length (y # ys) \<longrightarrow> (y # ys) ! i < (y # ys) ! Suc i"
      using 1 by (simp_all add: monotony_Cons2)
    show "\<forall>i. Suc i < length (x # y # ys) \<longrightarrow> (x # y # ys) ! i < (x # y # ys) ! Suc i"
    proof (intro allI impI)
      fix i assume "Suc i < length (x # y # ys)"
      then show "(x # y # ys) ! i < (x # y # ys) ! Suc i"
        using xy rest by (cases i) auto
    qed
  next
    assume h: "\<forall>i. Suc i < length (x # y # ys) \<longrightarrow> (x # y # ys) ! i < (x # y # ys) ! Suc i"
    from h [rule_format, of 0] have xy: "x < y" by simp
    have "\<forall>i. Suc i < length (y # ys) \<longrightarrow> (y # ys) ! i < (y # ys) ! Suc i"
    proof (intro allI impI)
      fix i assume "Suc i < length (y # ys)"
      then show "(y # ys) ! i < (y # ys) ! Suc i"
        using h [rule_format, of "Suc i"] by simp
    qed
    with 1 xy show "monotony (x # y # ys)"
      by (simp add: monotony_Cons2)
  qed
qed (simp_all add: monotony_def)

text \<open>
  Claim C6. The monotony test holds for a sequence exactly when every consecutive pair
  satisfies \<open>s[i+1] > s[i]\<close>; it holds for the empty and for every one-element sequence;
  it holds for [1,2,3] and [5] and fails for [1,3,2] and [2,2,3].
\<close>

theorem monotony_spec:
  "(\<forall>s. monotony s \<longleftrightarrow> (\<forall>i. Suc i < length s \<longrightarrow> s ! Suc i > s ! i))
   \<and> monotony [] \<and> (\<forall>x. monotony [x])
   \<and> monotony [1, 2, 3] \<and> \<not> monotony [1, 3, 2] \<and> monotony [5] \<and> \<not> monotony [2, 2, 3]"
proof -
  have "\<forall>s. monotony s \<longleftrightarrow> (\<forall>i. Suc i < length s \<longrightarrow> s ! Suc i > s ! i)"
    using monotony_iff_pairs by blast
  moreover have "monotony []" "\<forall>x. monotony [x]" "monotony [1, 2, 3]" "\<not> monotony [1, 3, 2]"
    "monotony [5]" "\<not> monotony [2, 2, 3]"
    by (simp_all add: monotony_def)
  ultimately show ?thesis by blast
qed

theorem monotony_spec_witness:
  "Suc 0 < length [1, 2, 3 :: real] \<and> [1, 2, 3 :: real] ! Suc 0 > [1, 2, 3] ! 0
   \<and> monotony [1, 2, 3]"
proof -
  have m: "monotony [1, 2, 3]" using monotony_spec by blast
  have "\<forall>i. Suc i < length [1, 2, 3 :: real] \<longrightarrow> [1, 2, 3 :: real] ! Suc i > [1, 2, 3] ! i"
    using monotony_spec m by blast
  then have "Suc 0 < length [1, 2, 3 :: real] \<longrightarrow> [1, 2, 3 :: real] ! Suc 0 > [1, 2, 3] ! 0"
    by blast
  with m show ?thesis by simp
qed

subsection \<open>The AOT sampling\<close>

text \<open>
  Claim C8. Without "show all" the indices plotted are 0, 8, 16, 24, 25, 26 for the table
  up to AOT 3.0 (flag LUT30, 27 values of tau) and 0, 8, 16, 24 for the table up to AOT 1.5
  (flag LUT15, 25 values of tau); with "show all" they are all the indices of the tau axis,
  27 or 25 of them, whatever the flag.
\<close>

theorem tau_sampling_sets:
  "tau_sampling ''LUT30'' False tau30 = Inr [0, 8, 16, 24, 25, 26]
   \<and> tau_sampling ''LUT15'' False tau15 = Inr [0, 8, 16, 24]
   \<and> (\<forall>dims. tau_sampling dims True tau30 = Inr (map int [0 ..< 27]))
   \<and> (\<forall>dims. tau_sampling dims True tau15 = Inr (map int [0 ..< 25]))"
  by (simp add: tau_sampling_def length_tau30 length_tau15)

subsection \<open>The name of the image\<close>

text \<open>
  Claim C2, as the code has it. The name of the image is the input name without its last
  four characters, followed by \<open>_B\<close>, the band index plus one, \<open>_L\<close>, the level index and
  \<open>.png\<close>. For \<open>sample.minilut\<close>, band index 1 and level index 0 that is
  \<open>sample.min_B2_L0.png\<close>: the four characters removed are \<open>ilut\<close>.
\<close>

theorem fname_strips_four:
  "(\<forall>stem suffix. FILE a = stem @ suffix \<and> length suffix = 4 \<longrightarrow>
      fname a = stem @ ''_B'' @ str_int (band a + 1) @ ''_L'' @ str_int (level a) @ ''.png'')
   \<and> fname \<lparr>FILE = ''sample.minilut'', verbose = False, band = 1, level = 0, all = False\<rparr>
       = ''sample.min_B2_L0.png''"
  by (simp add: fname_def str_int_def str_nat.simps digit_char_def)

theorem fname_strips_four_witness:
  "''sample.minilut'' = ''sample.min'' @ ''ilut'' \<and> length ''ilut'' = 4
   \<and> fname \<lparr>FILE = ''sample.minilut'', verbose = False, band = 1, level = 0, all = False\<rparr>
       = ''sample.min'' @ ''_B'' @ str_int (1 + 1) @ ''_L'' @ str_int 0 @ ''.png''"
  using fname_strips_four
    [of "\<lparr>FILE = ''sample.minilut'', verbose = False, band = 1, level = 0, all = False\<rparr>"]
  by (simp add: str_int_def str_nat.simps digit_char_def)

text \<open>The name the spec gives for that input is not the one computed.\<close>

theorem fname_sample_counterexample:
  "fname \<lparr>FILE = ''sample.minilut'', verbose = False, band = 1, level = 0, all = False\<rparr>
     \<noteq> ''sample_B2_L0.png''"
  by (simp add: fname_def str_int_def str_nat.simps digit_char_def)

subsection \<open>Loading the table\<close>

lemmas axis_lengths =
  length_nband length_rtoa length_tau15 length_tau30 length_alt length_vband

lemma load_neither_shape:
  assumes "read_file w (FILE a) = Inr buf"
    and "length buf \<noteq> 13 * length rtoa * 27 * 4"
    and "length buf \<noteq> 13 * length rtoa * 25 * 4"
  shows "load w a = ([Open_file (FILE a), fallback_warning], Inl (Uncaught ValueError))"
  using assms
  by (simp add: load_def try_body_def reshape_def axis_lengths)

lemma main_load_fails:
  assumes "load w a = (evs, Inl out)" and "\<not> band a > 13" and "\<not> level a > 4"
  shows "main w a =
           ((if verbose a then [Print (''INFO: working with band B'' @ str_int (band a + 1))]
             else []) @ evs, out)"
  using assms by (simp add: main_def axis_lengths)

lemma main_usage_error:
  assumes "band a > 13 \<or> level a > 4"
  shows "snd (main w a) = Exit 1 \<and> (\<exists>msg. fst (main w a) = [Print msg])"
  using assms by (auto simp add: main_def axis_lengths)

text \<open>
  Claim C3. When the file holds exactly \<open>13 * len(rtoa) * 27 * 4\<close> elements, the first
  reshape succeeds: the loader hands on the table of shape \<open>(13, len(rtoa), 27, 4)\<close> with
  the tau axis of 27 values and the flag LUT30, and the fallback warning is not printed.
\<close>

theorem load_extended:
  assumes "read_file w (FILE a) = Inr buf"
    and "length buf = 13 * length rtoa * 27 * 4"
  shows "load w a =
           (Open_file (FILE a) #
              (if verbose a then [Print (''INFO: successfuly opened '' @ FILE a)] else []),
            Inr (\<lparr>shape = (13, length rtoa, 27, 4), data = buf\<rparr>, tau30, ''LUT30''))
         \<and> fallback_warning \<notin> set (fst (load w a))"
  using assms
  by (simp add: load_def try_body_def reshape_def axis_lengths fallback_warning_def)

theorem load_extended_witness:
  "read_file \<lparr>read_file = \<lambda>f. Inr (replicate 28080 0), savefig = \<lambda>f. None\<rparr> ''sample.minilut''
     = Inr (replicate 28080 0)
   \<and> length (replicate 28080 (0::real)) = 13 * length rtoa * 27 * 4
   \<and> load \<lparr>read_file = \<lambda>f. Inr (replicate 28080 0), savefig = \<lambda>f. None\<rparr>
        \<lparr>FILE = ''sample.minilut'', verbose = False, band = 0, level = 0, all = False\<rparr>
      = ([Open_file ''sample.minilut''],
         Inr (\<lparr>shape = (13, 20, 27, 4), data = replicate 28080 0\<rparr>, tau30, ''LUT30''))"
  using load_extended
    [of "\<lparr>read_file = \<lambda>f. Inr (replicate 28080 0), savefig = \<lambda>f. None\<rparr>"
        "\<lparr>FILE = ''sample.minilut'', verbose = False, band = 0, level = 0, all = False\<rparr>"
        "replicate 28080 0"]
  by (simp add: length_rtoa)

text \<open>
  Claim C4. When the file holds exactly \<open>13 * len(rtoa) * 25 * 4\<close> elements, which is not
  the count of the table up to AOT 3.0, the loader prints the fallback warning and hands on
  the table of shape \<open>(13, len(rtoa), 25, 4)\<close> with the tau axis of 25 values and the flag
  LUT15; the run goes on to the plot with them and, the plot done, ends with the final
  message and status 0.
\<close>

theorem load_legacy:
  assumes "read_file w (FILE a) = Inr buf"
    and "length buf = 13 * length rtoa * 25 * 4"
    and "length buf \<noteq> 13 * length rtoa * 27 * 4"
  shows "load w a =
           ([Open_file (FILE a), fallback_warning],
            Inr (\<lparr>shape = (13, length rtoa, 25, 4), data = buf\<rparr>, tau15, ''LUT15''))
         \<and> fallback_warning = Print ''WARNING: bad minilut dimensions, trying with AOT->1.5''
         \<and> (band a \<le> 13 \<and> level a \<le> 4 \<longrightarrow>
              main w a =
                (let info = (if verbose a
                             then [Print (''INFO: working with band B'' @ str_int (band a + 1))]
                             else [])
                 in case miniplot (savefig w) rtoa tau15
                           \<lparr>shape = (13, length rtoa, 25, 4), data = buf\<rparr> alt vband (fname a)
                           (band a) (level a) ''LUT15'' (verbose a) (all a) of
                      (pevs, Some e) \<Rightarrow>
                        (info @ [Open_file (FILE a), fallback_warning] @ pevs, Uncaught e)
                    | (pevs, None) \<Rightarrow>
                        (info @ [Open_file (FILE a), fallback_warning] @ pevs @
                         [Print ''INFO: Done...''], Exit 0)))"
proof -
  have l: "load w a =
           ([Open_file (FILE a), fallback_warning],
            Inr (\<lparr>shape = (13, length rtoa, 25, 4), data = buf\<rparr>, tau15, ''LUT15''))"
    using assms by (simp add: load_def try_body_def reshape_def axis_lengths)
  show ?thesis
    by (simp add: l main_def fallback_warning_def length_nband length_alt)
qed

theorem load_legacy_witness:
  "read_file \<lparr>read_file = \<lambda>f. Inr (replicate 26000 0), savefig = \<lambda>f. None\<rparr> ''sample.minilut''
     = Inr (replicate 26000 0)
   \<and> length (replicate 26000 (0::real)) = 13 * length rtoa * 25 * 4
   \<and> length (replicate 26000 (0::real)) \<noteq> 13 * length rtoa * 27 * 4
   \<and> load \<lparr>read_file = \<lambda>f. Inr (replicate 26000 0), savefig = \<lambda>f. None\<rparr>
        \<lparr>FILE = ''sample.minilut'', verbose = False, band = 0, level = 0, all = False\<rparr>
      = ([Open_file ''sample.minilut'', fallback_warning],
         Inr (\<lparr>shape = (13, 20, 25, 4), data = replicate 26000 0\<rparr>, tau15, ''LUT15''))"
  using load_legacy
    [of "\<lparr>read_file = \<lambda>f. Inr (replicate 26000 0), savefig = \<lambda>f. None\<rparr>"
        "\<lparr>FILE = ''sample.minilut'', verbose = False, band = 0, level = 0, all = False\<rparr>"
        "replicate 26000 0"]
  by (simp add: length_rtoa)

text \<open>
  Claim C5. When the element count of the file is neither \<open>13 * len(rtoa) * 27 * 4\<close> nor
  \<open>13 * len(rtoa) * 25 * 4\<close>, the second reshape raises ValueError inside the handler and
  nothing catches it: the loader hands no table on, the run makes no call to the plotting
  backend, and the process ends with status 1.
\<close>

theorem load_neither:
  assumes "read_file w (FILE a) = Inr buf"
    and "length buf \<noteq> 13 * length rtoa * 27 * 4"
    and "length buf \<noteq> 13 * length rtoa * 25 * 4"
  shows "load w a = ([Open_file (FILE a), fallback_warning], Inl (Uncaught ValueError))
         \<and> (band a \<le> 13 \<and> level a \<le> 4 \<longrightarrow> snd (main w a) = Uncaught ValueError)
         \<and> filter plotting (fst (main w a)) = []
         \<and> exit_status (snd (main w a)) = 1"
proof -
  have l: "load w a = ([Open_file (FILE a), fallback_warning], Inl (Uncaught ValueError))"
    using assms by (rule load_neither_shape)
  show ?thesis
  proof (cases "band a > 13 \<or> level a > 4")
    case True
    from main_usage_error [OF True, of w] obtain msg where
      "snd (main w a) = Exit 1" "fst (main w a) = [Print msg]" by blast
    with l True show ?thesis by auto
  next
    case False
    then have "main w a =
        ((if verbose a then [Print (''INFO: working with band B'' @ str_int (band a + 1))]
          else []) @ [Open_file (FILE a), fallback_warning], Uncaught ValueError)"
      using main_load_fails [OF l] by simp
    with l show ?thesis by (simp add: fallback_warning_def)
  qed
qed

theorem load_neither_witness:
  "read_file \<lparr>read_file = \<lambda>f. Inr [1, 2, 3], savefig = \<lambda>f. None\<rparr> ''sample.minilut''
     = Inr [1, 2, 3]
   \<and> length [1, 2, 3 :: real] \<noteq> 13 * length rtoa * 27 * 4
   \<and> length [1, 2, 3 :: real] \<noteq> 13 * length rtoa * 25 * 4
   \<and> (0::int) \<le> 13 \<and> (0::int) \<le> 4
   \<and> main \<lparr>read_file = \<lambda>f. Inr [1, 2, 3], savefig = \<lambda>f. None\<rparr>
        \<lparr>FILE = ''sample.minilut'', verbose = False, band = 0, level = 0, all = False\<rparr>
      = ([Open_file ''sample.minilut'', fallback_warning], Uncaught ValueError)"
proof -
  let ?w = "\<lparr>read_file = \<lambda>f. Inr [1, 2, 3], savefig = \<lambda>f. None\<rparr>"
  let ?a = "\<lparr>FILE = ''sample.minilut'', verbose = False, band = 0, level = 0, all = False\<rparr>"
  have "load ?w ?a = ([Open_file (FILE ?a), fallback_warning], Inl (Uncaught ValueError))"
    using load_neither [of ?w ?a "[1, 2, 3]"] by (simp add: length_rtoa)
  then show ?thesis
    by (simp add: main_def axis_lengths)
qed

subsection \<open>Indexing, slices and the loop on AOT\<close>

lemma py_index_in_range:
  assumes "- int n \<le> i" and "i < int n"
  shows "\<exists>k. py_index n i = Inr k \<and> k < n"
  using assms by (auto simp add: py_index_def)

lemma py_index_nonneg: "0 \<le> i \<Longrightarrow> i < int n \<Longrightarrow> py_index n i = Inr (nat i)"
  by (simp add: py_index_def)

lemma py_index_negative:
  "- int n \<le> i \<Longrightarrow> i < 0 \<Longrightarrow> py_index n i = py_index n (i + int n)"
  by (simp add: py_index_def)

lemma py_index_out_of_range:
  "i < - int n \<or> int n \<le> i \<Longrightarrow> py_index n i = Inl IndexError"
  by (auto simp add: py_index_def)

lemma getitem_negative:
  "- int (length xs) \<le> i \<Longrightarrow> i < 0 \<Longrightarrow> getitem xs i = getitem xs (i + int (length xs))"
  by (simp add: getitem_def py_index_negative)

lemma getitem_in_range:
  "- int (length xs) \<le> i \<Longrightarrow> i < int (length xs) \<Longrightarrow> \<exists>v. getitem xs i = Inr v"
  using py_index_in_range [of "length xs" i] by (auto simp add: getitem_def)

lemma slice_in_range:
  assumes "shape m = (nb, nr, nt, nl)"
    and "- int nb \<le> b" "b < int nb" "- int nt \<le> t" "t < int nt" "- int nl \<le> l" "l < int nl"
  shows "\<exists>s. slice m b t l = Inr s \<and> length s = nr"
proof -
  obtain b' t' l' where "py_index nb b = Inr b'" "py_index nt t = Inr t'" "py_index nl l = Inr l'"
    using assms py_index_in_range by metis
  with assms(1) show ?thesis by (simp add: slice_def)
qed

lemma slice_negative_band:
  assumes "shape m = (nb, nr, nt, nl)" and "- int nb \<le> b" and "b < 0"
  shows "slice m b t l = slice m (b + int nb) t l"
  using assms by (simp add: slice_def py_index_negative [of nb b] cong: sum.case_cong)

lemma slice_negative_level:
  assumes "shape m = (nb, nr, nt, nl)" and "- int nl \<le> l" and "l < 0"
  shows "slice m b t l = slice m b t (l + int nl)"
  using assms by (simp add: slice_def py_index_negative [of nl l] cong: sum.case_cong)

lemma plot_loop_step:
  assumes "slice m b t l = Inr s" and "getitem ta t = Inr v" and "length s = length rt"
  shows "plot_loop rt ta m b l (t # ts) =
           (Plot_curve rt s (''AOT='' @ fmt_2f v) #
              (if monotony s then [] else [nonmonotone_warning v]) @
              fst (plot_loop rt ta m b l ts),
            snd (plot_loop rt ta m b l ts))"
  using assms by (simp add: Let_def split: prod.splits)

lemma plot_loop_completes:
  assumes "shape m = (nb, length rt, length ta, nl)"
    and "- int nb \<le> b" "b < int nb" "- int nl \<le> l" "l < int nl"
    and "\<forall>t \<in> set ts. - int (length ta) \<le> t \<and> t < int (length ta)"
  shows "snd (plot_loop rt ta m b l ts) = None"
  using assms(6)
proof (induction ts)
  case Nil
  show ?case by simp
next
  case (Cons t ts)
  then have t: "- int (length ta) \<le> t" "t < int (length ta)" by simp_all
  obtain s where s: "slice m b t l = Inr s" "length s = length rt"
    using slice_in_range [OF assms(1) assms(2,3) t assms(4,5)] by blast
  obtain v where v: "getitem ta t = Inr v"
    using getitem_in_range [OF t] by blast
  have "snd (plot_loop rt ta m b l ts) = None"
    using Cons by simp
  then show ?case
    by (simp only: plot_loop_step [OF s(1) v s(2)] snd_conv)
qed

lemma plot_loop_negative_band:
  assumes "shape m = (nb, nr, nt, nl)" and "- int nb \<le> b" and "b < 0"
  shows "plot_loop rt ta m b l ts = plot_loop rt ta m (b + int nb) l ts"
  by (induction ts) (simp_all add: slice_negative_band [OF assms, symmetric] cong: sum.case_cong if_cong)

lemma plot_loop_negative_level:
  assumes "shape m = (nb, nr, nt, nl)" and "- int nl \<le> l" and "l < 0"
  shows "plot_loop rt ta m b l ts = plot_loop rt ta m b (l + int nl) ts"
  by (induction ts) (simp_all add: slice_negative_level [OF assms, symmetric] cong: sum.case_cong if_cong)

lemma plot_loop_events:
  "e \<in> set (fst (plot_loop rt ta m b l ts)) \<Longrightarrow>
     (\<exists>x y lab. e = Plot_curve x y lab) \<or> (\<exists>v. e = nonmonotone_warning v)"
proof (induction ts arbitrary: e)
  case Nil
  then show ?case by simp
next
  case (Cons t ts)
  then show ?case
    by (auto simp add: Let_def split: sum.splits if_splits prod.splits)
qed

lemma plot_loop_no_savefig: "Savefig f \<notin> set (fst (plot_loop rt ta m b l ts))"
  using plot_loop_events [of "Savefig f" rt ta m b l ts]
  by (auto simp add: nonmonotone_warning_def)

subsection \<open>Runs of \<open>miniplot\<close>\<close>

lemma getitem_nonneg: "0 \<le> i \<Longrightarrow> i < int (length xs) \<Longrightarrow> getitem xs i = Inr (xs ! nat i)"
  by (simp add: getitem_def py_index_nonneg)

lemma getitem_out_of_range:
  "i < - int (length xs) \<or> int (length xs) \<le> i \<Longrightarrow> getitem xs i = Inl IndexError"
  by (simp add: getitem_def py_index_out_of_range)

lemma py_min_nonempty: "xs \<noteq> [] \<Longrightarrow> \<exists>v. py_min xs = Inr v"
  by (cases xs) (simp_all add: py_min_def)

lemma py_max_nonempty: "xs \<noteq> [] \<Longrightarrow> \<exists>v. py_max xs = Inr v"
  by (cases xs) (simp_all add: py_max_def)

lemma sampling_in_range:
  assumes "(dims = ''LUT30'' \<and> ta = tau30) \<or> (dims = ''LUT15'' \<and> ta = tau15)"
  shows "\<exists>ts. tau_sampling dims showall ta = Inr ts
              \<and> (\<forall>t \<in> set ts. - int (length ta) \<le> t \<and> t < int (length ta))"
proof -
  consider "dims = ''LUT30''" "ta = tau30" | "dims = ''LUT15''" "ta = tau15"
    using assms by blast
  then show ?thesis
  proof cases
    case 1
    show ?thesis
      unfolding 1 by (cases showall) (auto simp add: tau_sampling_def length_tau30)
  next
    case 2
    show ?thesis
      unfolding 2 by (cases showall) (auto simp add: tau_sampling_def length_tau15)
  qed
qed

lemma miniplot_unfold:
  assumes "getitem vb b = Inr wl" and "getitem al l = Inr z"
    and "py_min rt = Inr lo" and "py_max rt = Inr hi"
    and "tau_sampling dims showall ta = Inr ts"
    and "plot_loop rt ta m b l ts = (evs, None)"
  shows "miniplot save rt ta m al vb fn b l dims verb showall =
           save_and_show save fn verb ([Title wl z, Plot_identity lo hi] @ evs)"
  using assms by (simp add: miniplot_def save_and_show_def Let_def split: option.splits)

lemma miniplot_completes:
  assumes "shape m = (length vb, length rt, length ta, length al)" and "rt \<noteq> []"
    and "- int (length vb) \<le> b" "b < int (length vb)"
    and "- int (length al) \<le> l" "l < int (length al)"
    and "(dims = ''LUT30'' \<and> ta = tau30) \<or> (dims = ''LUT15'' \<and> ta = tau15)"
  shows "\<exists>wl z lo hi evs.
           miniplot save rt ta m al vb fn b l dims verb showall =
             save_and_show save fn verb ([Title wl z, Plot_identity lo hi] @ evs)"
proof -
  obtain wl where wl: "getitem vb b = Inr wl"
    using getitem_in_range [OF assms(3,4)] by blast
  obtain z where z: "getitem al l = Inr z"
    using getitem_in_range [OF assms(5,6)] by blast
  obtain lo where lo: "py_min rt = Inr lo"
    using py_min_nonempty [OF assms(2)] by blast
  obtain hi where hi: "py_max rt = Inr hi"
    using py_max_nonempty [OF assms(2)] by blast
  obtain ts where ts: "tau_sampling dims showall ta = Inr ts"
    and r: "\<forall>t \<in> set ts. - int (length ta) \<le> t \<and> t < int (length ta)"
    using sampling_in_range [OF assms(7)] by blast
  have "snd (plot_loop rt ta m b l ts) = None"
    using plot_loop_completes [OF assms(1) assms(3,4) assms(5,6) r] .
  then obtain evs where evs: "plot_loop rt ta m b l ts = (evs, None)"
    by (cases "plot_loop rt ta m b l ts") simp
  show ?thesis
    using miniplot_unfold [OF wl z lo hi ts evs] by blast
qed

lemma plot_loop_no_savefig_pair:
  "plot_loop rt ta m b l ts = (evs, r) \<Longrightarrow> Savefig f \<in> set evs \<Longrightarrow> False"
  using plot_loop_no_savefig [of f rt ta m b l ts] by simp

lemma miniplot_savefig_permission:
  assumes "Savefig f \<in> set (fst (miniplot save rt ta m al vb fn b l dims verb showall))"
    and "save fn = Some PermissionError"
  shows "snd (miniplot save rt ta m al vb fn b l dims verb showall) = None
         \<and> Print ''WARNING: write permission missing, couldn't save figure''
             \<in> set (fst (miniplot save rt ta m al vb fn b l dims verb showall))"
  using assms
  by (auto simp add: miniplot_def save_and_show_def Let_def dest: plot_loop_no_savefig_pair
      split: sum.splits prod.splits option.splits if_splits)

lemma miniplot_negative_band:
  assumes "shape m = (length vb, nr, nt, nl)" and "- int (length vb) \<le> b" and "b < 0"
  shows "miniplot save rt ta m al vb fn b l dims verb showall =
         miniplot save rt ta m al vb fn (b + int (length vb)) l dims verb showall"
  by (simp add: miniplot_def getitem_negative [OF assms(2,3), symmetric]
      plot_loop_negative_band [OF assms, symmetric] cong: sum.case_cong)

lemma miniplot_negative_level:
  assumes "shape m = (nb, nr, nt, length al)" and "- int (length al) \<le> l" and "l < 0"
  shows "miniplot save rt ta m al vb fn b l dims verb showall =
         miniplot save rt ta m al vb fn b (l + int (length al)) dims verb showall"
  by (simp add: miniplot_def getitem_negative [OF assms(2,3), symmetric]
      plot_loop_negative_level [OF assms, symmetric] cong: sum.case_cong)

lemma miniplot_index_error:
  assumes "b < - int (length vb) \<or> int (length vb) \<le> b"
  shows "miniplot save rt ta m al vb fn b l dims verb showall = ([], Some IndexError)"
  by (simp add: miniplot_def getitem_out_of_range [OF assms])

subsection \<open>Runs of \<open>main\<close>\<close>

lemma load_first_shape:
  assumes "read_file w (FILE a) = Inr buf" and "length buf = 13 * length rtoa * 27 * 4"
  shows "load w a =
           (Open_file (FILE a) #
              (if verbose a then [Print (''INFO: successfuly opened '' @ FILE a)] else []),
            Inr (\<lparr>shape = (13, 20, 27, 4), data = buf\<rparr>, tau30, ''LUT30''))"
  using assms by (simp add: load_def try_body_def reshape_def axis_lengths)

lemma load_second_shape:
  assumes "read_file w (FILE a) = Inr buf" and "length buf = 13 * length rtoa * 25 * 4"
  shows "load w a =
           ([Open_file (FILE a), fallback_warning],
            Inr (\<lparr>shape = (13, 20, 25, 4), data = buf\<rparr>, tau15, ''LUT15''))"
  using assms by (simp add: load_def try_body_def reshape_def axis_lengths)

lemma load_no_savefig: "Savefig f \<notin> set (fst (load w a))"
  by (simp add: load_def fallback_warning_def split: prod.splits sum.splits option.splits)

lemma load_valid_file:
  assumes "read_file w (FILE a) = Inr buf"
    and "length buf = 13 * length rtoa * 27 * 4 \<or> length buf = 13 * length rtoa * 25 * 4"
  shows "\<exists>evs m ta ftau. load w a = (evs, Inr (m, ta, ftau))
           \<and> Open_file (FILE a) \<in> set evs \<and> Savefig f \<notin> set evs
           \<and> shape m = (length vband, length rtoa, length ta, length alt)
           \<and> ((ftau = ''LUT30'' \<and> ta = tau30) \<or> (ftau = ''LUT15'' \<and> ta = tau15))"
  using assms(2)
proof
  assume "length buf = 13 * length rtoa * 27 * 4"
  from load_first_shape [OF assms(1) this] show ?thesis
    by (simp add: axis_lengths)
next
  assume "length buf = 13 * length rtoa * 25 * 4"
  from load_second_shape [OF assms(1) this] show ?thesis
    by (simp add: axis_lengths fallback_warning_def)
qed

lemma main_after_load:
  assumes "load w a = (evs, Inr (m, ta, ftau))" and "band a \<le> 13" and "level a \<le> 4"
    and "miniplot (savefig w) rtoa ta m alt vband (fname a) (band a) (level a) ftau
           (verbose a) (all a) = (pevs, r)"
  shows "main w a =
           ((if verbose a then [Print (''INFO: working with band B'' @ str_int (band a + 1))]
             else []) @ evs @ pevs @ (if r = None then [Print ''INFO: Done...''] else []),
            (case r of None \<Rightarrow> Exit 0 | Some e \<Rightarrow> Uncaught e))"
  using assms by (cases r) (simp_all add: main_def axis_lengths)

lemma rtoa_nonempty: "rtoa \<noteq> []"
  using length_rtoa by auto

lemma main_valid_run:
  assumes "read_file w (FILE a) = Inr buf"
    and "length buf = 13 * length rtoa * 27 * 4 \<or> length buf = 13 * length rtoa * 25 * 4"
    and "- 13 \<le> band a" "band a < 13" "- 4 \<le> level a" "level a < 4"
  shows "\<exists>evs drawn.
           Open_file (FILE a) \<in> set evs \<and>
           main w a =
             ((if verbose a then [Print (''INFO: working with band B'' @ str_int (band a + 1))]
               else []) @ evs @
              fst (save_and_show (savefig w) (fname a) (verbose a) drawn) @
              (if snd (save_and_show (savefig w) (fname a) (verbose a) drawn) = None
               then [Print ''INFO: Done...''] else []),
              (case snd (save_and_show (savefig w) (fname a) (verbose a) drawn) of
                 None \<Rightarrow> Exit 0 | Some e \<Rightarrow> Uncaught e))"
proof -
  obtain evs m ta ftau where l: "load w a = (evs, Inr (m, ta, ftau))"
    and o: "Open_file (FILE a) \<in> set evs"
    and sh: "shape m = (length vband, length rtoa, length ta, length alt)"
    and fl: "(ftau = ''LUT30'' \<and> ta = tau30) \<or> (ftau = ''LUT15'' \<and> ta = tau15)"
    using load_valid_file [OF assms(1,2)] by blast
  have b: "- int (length vband) \<le> band a" "band a < int (length vband)"
    and z: "- int (length alt) \<le> level a" "level a < int (length alt)"
    using assms(3-6) by (simp_all add: axis_lengths)
  obtain wl zz lo hi cs where
    mp: "miniplot (savefig w) rtoa ta m alt vband (fname a) (band a) (level a) ftau
           (verbose a) (all a) =
         save_and_show (savefig w) (fname a) (verbose a) ([Title wl zz, Plot_identity lo hi] @ cs)"
    using miniplot_completes [OF sh rtoa_nonempty b z fl] by blast
  let ?d = "[Title wl zz, Plot_identity lo hi] @ cs"
  have "miniplot (savefig w) rtoa ta m alt vband (fname a) (band a) (level a) ftau
           (verbose a) (all a) =
        (fst (save_and_show (savefig w) (fname a) (verbose a) ?d),
         snd (save_and_show (savefig w) (fname a) (verbose a) ?d))"
    using mp by simp
  from main_after_load [OF l _ _ this] assms(4,6) o show ?thesis
    by (intro exI [of _ evs] exI [of _ ?d]) simp
qed

lemma save_and_show_savefig:
  "Savefig fn \<in> set (fst (save_and_show save fn verb drawn))"
  by (simp add: save_and_show_def split: option.splits)

lemma save_and_show_ok:
  "save fn = None \<or> save fn = Some PermissionError \<Longrightarrow>
     snd (save_and_show save fn verb drawn) = None"
  by (auto simp add: save_and_show_def)

lemma main_valid_run_savefig:
  assumes "read_file w (FILE a) = Inr buf"
    and "length buf = 13 * length rtoa * 27 * 4 \<or> length buf = 13 * length rtoa * 25 * 4"
    and "- 13 \<le> band a" "band a < 13" "- 4 \<le> level a" "level a < 4"
  shows "Open_file (FILE a) \<in> set (fst (main w a))
         \<and> Savefig (fname a) \<in> set (fst (main w a))
         \<and> (savefig w (fname a) = None \<or> savefig w (fname a) = Some PermissionError \<longrightarrow>
              snd (main w a) = Exit 0 \<and> last (fst (main w a)) = Print ''INFO: Done...'')"
proof -
  obtain evs drawn where o: "Open_file (FILE a) \<in> set evs" and
    m: "main w a =
             ((if verbose a then [Print (''INFO: working with band B'' @ str_int (band a + 1))]
               else []) @ evs @
              fst (save_and_show (savefig w) (fname a) (verbose a) drawn) @
              (if snd (save_and_show (savefig w) (fname a) (verbose a) drawn) = None
               then [Print ''INFO: Done...''] else []),
              (case snd (save_and_show (savefig w) (fname a) (verbose a) drawn) of
                 None \<Rightarrow> Exit 0 | Some e \<Rightarrow> Uncaught e))"
    using main_valid_run [OF assms] by blast
  show ?thesis
    using o save_and_show_savefig [of "fname a" "savefig w" "verbose a" drawn]
      save_and_show_ok [of "savefig w" "fname a" "verbose a" drawn]
    by (auto simp add: m)
qed

text \<open>
  Claim C9. When \<^verbatim>\<open>pl.savefig\<close> is reached and raises PermissionError, the exception is
  caught and the warning printed; the run goes on, prints the final message last and ends
  with status 0.
\<close>

theorem savefig_permission_nonfatal:
  assumes "savefig w (fname a) = Some PermissionError"
    and "Savefig (fname a) \<in> set (fst (main w a))"
  shows "Print ''WARNING: write permission missing, couldn't save figure''
           \<in> set (fst (main w a))
         \<and> last (fst (main w a)) = Print ''INFO: Done...''
         \<and> snd (main w a) = Exit 0"
proof (cases "band a > 13 \<or> level a > 4")
  case True
  from main_usage_error [OF True, of w] assms(2) show ?thesis by auto
next
  case False
  then have bl: "band a \<le> 13" "level a \<le> 4" by simp_all
  obtain evs res where l: "load w a = (evs, res)" by (cases "load w a")
  have ns: "Savefig (fname a) \<notin> set evs"
    using load_no_savefig [of "fname a" w a] l by simp
  show ?thesis
  proof (cases res)
    case (Inl out)
    from main_load_fails [of w a evs out] l Inl False assms(2) ns show ?thesis by simp
  next
    case (Inr t)
    obtain m ta ftau where t: "t = (m, ta, ftau)" by (cases t)
    obtain pevs r where
      mp: "miniplot (savefig w) rtoa ta m alt vband (fname a) (band a) (level a) ftau
             (verbose a) (all a) = (pevs, r)"
      by (cases "miniplot (savefig w) rtoa ta m alt vband (fname a) (band a) (level a) ftau
             (verbose a) (all a)")
    have mn: "main w a =
           ((if verbose a then [Print (''INFO: working with band B'' @ str_int (band a + 1))]
             else []) @ evs @ pevs @ (if r = None then [Print ''INFO: Done...''] else []),
            (case r of None \<Rightarrow> Exit 0 | Some e \<Rightarrow> Uncaught e))"
      using main_after_load [OF _ bl mp] l Inr t by simp
    have "Savefig (fname a) \<in> set pevs"
      using assms(2) ns by (auto simp add: mn split: if_splits)
    then have "r = None \<and> Print ''WARNING: write permission missing, couldn't save figure'' \<in> set pevs"
      using miniplot_savefig_permission [of "fname a" "savefig w" rtoa ta m alt vband "fname a"
          "band a" "level a" ftau "verbose a" "all a"] assms(1) mp by simp
    then show ?thesis by (simp add: mn)
  qed
qed

theorem savefig_permission_nonfatal_witness:
  "savefig \<lparr>read_file = \<lambda>f. Inr (replicate 28080 0), savefig = \<lambda>f. Some PermissionError\<rparr>
     (fname \<lparr>FILE = ''sample.minilut'', verbose = False, band = 0, level = 0, all = False\<rparr>)
     = Some PermissionError
   \<and> Savefig (fname \<lparr>FILE = ''sample.minilut'', verbose = False, band = 0, level = 0, all = False\<rparr>)
       \<in> set (fst (main
           \<lparr>read_file = \<lambda>f. Inr (replicate 28080 0), savefig = \<lambda>f. Some PermissionError\<rparr>
           \<lparr>FILE = ''sample.minilut'', verbose = False, band = 0, level = 0, all = False\<rparr>))
   \<and> snd (main
           \<lparr>read_file = \<lambda>f. Inr (replicate 28080 0), savefig = \<lambda>f. Some PermissionError\<rparr>
           \<lparr>FILE = ''sample.minilut'', verbose = False, band = 0, level = 0, all = False\<rparr>)
       = Exit 0"
proof -
  let ?w = "\<lparr>read_file = \<lambda>f. Inr (replicate 28080 0), savefig = \<lambda>f. Some PermissionError\<rparr>"
  let ?a = "\<lparr>FILE = ''sample.minilut'', verbose = False, band = 0, level = 0, all = False\<rparr>"
  have s: "Savefig (fname ?a) \<in> set (fst (main ?w ?a))"
    using main_valid_run_savefig [of ?w ?a "replicate 28080 0"] by (simp add: length_rtoa)
  have p: "savefig ?w (fname ?a) = Some PermissionError" by simp
  from savefig_permission_nonfatal [OF p s] s show ?thesis by simp
qed

subsection \<open>The check of the arguments\<close>

lemma main_index_error:
  assumes "read_file w (FILE a) = Inr buf"
    and "length buf = 13 * length rtoa * 27 * 4 \<or> length buf = 13 * length rtoa * 25 * 4"
    and "band a < - 13 \<or> band a = 13" and "level a \<le> 4"
  shows "\<exists>evs. Open_file (FILE a) \<in> set evs \<and> Savefig (fname a) \<notin> set evs \<and>
           main w a =
             ((if verbose a then [Print (''INFO: working with band B'' @ str_int (band a + 1))]
               else []) @ evs, Uncaught IndexError)"
proof -
  obtain evs m ta ftau where l: "load w a = (evs, Inr (m, ta, ftau))"
    and o: "Open_file (FILE a) \<in> set evs" and ns: "Savefig (fname a) \<notin> set evs"
    using load_valid_file [OF assms(1,2)] by blast
  have "band a < - int (length vband) \<or> int (length vband) \<le> band a"
    using assms(3) by (auto simp add: length_vband)
  from miniplot_index_error [OF this]
  have mp: "miniplot (savefig w) rtoa ta m alt vband (fname a) (band a) (level a) ftau
             (verbose a) (all a) = ([], Some IndexError)" .
  have "band a \<le> 13" using assms(3) by auto
  from main_after_load [OF l this assms(4) mp] o ns show ?thesis by simp
qed

text \<open>
  Claim C1, at the band index 13. The check is \<^verbatim>\<open>args.band > len(nband)\<close>, so 13 passes
  it: the file is opened, and the run ends either on the missing file or, the table loaded,
  on the IndexError of \<open>vband[13]\<close> in \<open>miniplot\<close>. The band index 14 is rejected before
  the file is opened.
\<close>

theorem band_13_opens_file:
  "main \<lparr>read_file = \<lambda>f. Inr (replicate 28080 0), savefig = \<lambda>f. None\<rparr>
        \<lparr>FILE = ''sample.minilut'', verbose = False, band = 13, level = 0, all = False\<rparr>
     = ([Open_file ''sample.minilut''], Uncaught IndexError)
   \<and> main \<lparr>read_file = \<lambda>f. Inl FileNotFoundError, savefig = \<lambda>f. None\<rparr>
        \<lparr>FILE = ''sample.minilut'', verbose = False, band = 13, level = 0, all = False\<rparr>
     = ([Open_file ''sample.minilut'', Print ''ERROR: file sample.minilut not found...''],
        Exit 1)
   \<and> main \<lparr>read_file = \<lambda>f. Inr (replicate 28080 0), savefig = \<lambda>f. None\<rparr>
        \<lparr>FILE = ''sample.minilut'', verbose = False, band = 14, level = 0, all = False\<rparr>
     = ([Print ''ERROR: Band number out of range''], Exit 1)"
proof -
  let ?w = "\<lparr>read_file = \<lambda>f. Inr (replicate 28080 0), savefig = \<lambda>f. None\<rparr>"
  let ?a = "\<lparr>FILE = ''sample.minilut'', verbose = False, band = 13, level = 0, all = False\<rparr>"
  have l: "load ?w ?a =
      ([Open_file ''sample.minilut''],
       Inr (\<lparr>shape = (13, 20, 27, 4), data = replicate 28080 0\<rparr>, tau30, ''LUT30''))"
    using load_first_shape [of ?w ?a "replicate 28080 0"] by (simp add: length_rtoa)
  have mp: "miniplot (savefig ?w) rtoa tau30 \<lparr>shape = (13, 20, 27, 4), data = replicate 28080 0\<rparr>
      alt vband (fname ?a) (band ?a) (level ?a) ''LUT30'' (verbose ?a) (all ?a)
      = ([], Some IndexError)"
    by (rule miniplot_index_error) (simp add: length_vband)
  have "main ?w ?a = ([Open_file ''sample.minilut''], Uncaught IndexError)"
    using main_after_load [OF l _ _ mp] by simp
  moreover have "main \<lparr>read_file = \<lambda>f. Inl FileNotFoundError, savefig = \<lambda>f. None\<rparr> ?a
     = ([Open_file ''sample.minilut'', Print ''ERROR: file sample.minilut not found...''],
        Exit 1)"
    by (simp add: main_def load_def try_body_def axis_lengths)
  moreover have "main ?w
        \<lparr>FILE = ''sample.minilut'', verbose = False, band = 14, level = 0, all = False\<rparr>
     = ([Print ''ERROR: Band number out of range''], Exit 1)"
    by (simp add: main_def axis_lengths)
  ultimately show ?thesis by simp
qed

text \<open>
  Claim C10, as the code has it. With a band index in \<open>[-13, -1]\<close> or a level index in
  \<open>[-4, -1]\<close>, the other index being inside its axis and the file holding a table of one of
  the two shapes, no usage error is reported: the file is opened and the plot is drawn up
  to the saving of the figure, and it is the plot of band \<open>band + 13\<close> (of level
  \<open>level + 4\<close>): the negative index counts from the end of its axis.
\<close>

theorem negative_index_counts_from_end:
  assumes "read_file w (FILE a) = Inr buf"
    and "length buf = 13 * length rtoa * 27 * 4 \<or> length buf = 13 * length rtoa * 25 * 4"
    and "band a < 0 \<or> level a < 0"
    and "- 13 \<le> band a" "band a < 13" "- 4 \<le> level a" "level a < 4"
  shows "Open_file (FILE a) \<in> set (fst (main w a))
         \<and> Savefig (fname a) \<in> set (fst (main w a))
         \<and> snd (main w a) \<noteq> Exit 1
         \<and> (savefig w (fname a) = None \<longrightarrow> snd (main w a) = Exit 0)
         \<and> (\<exists>evs m ta ftau. load w a = (evs, Inr (m, ta, ftau)) \<and>
              (band a < 0 \<longrightarrow>
                 miniplot (savefig w) rtoa ta m alt vband (fname a) (band a) (level a) ftau
                   (verbose a) (all a) =
                 miniplot (savefig w) rtoa ta m alt vband (fname a) (band a + 13) (level a) ftau
                   (verbose a) (all a)) \<and>
              (level a < 0 \<longrightarrow>
                 miniplot (savefig w) rtoa ta m alt vband (fname a) (band a) (level a) ftau
                   (verbose a) (all a) =
                 miniplot (savefig w) rtoa ta m alt vband (fname a) (band a) (level a + 4) ftau
                   (verbose a) (all a)))"
proof -
  obtain evs drawn where
    m: "main w a =
             ((if verbose a then [Print (''INFO: working with band B'' @ str_int (band a + 1))]
               else []) @ evs @
              fst (save_and_show (savefig w) (fname a) (verbose a) drawn) @
              (if snd (save_and_show (savefig w) (fname a) (verbose a) drawn) = None
               then [Print ''INFO: Done...''] else []),
              (case snd (save_and_show (savefig w) (fname a) (verbose a) drawn) of
                 None \<Rightarrow> Exit 0 | Some e \<Rightarrow> Uncaught e))"
    using main_valid_run [OF assms(1,2) assms(4-7)] by blast
  have ne: "snd (main w a) \<noteq> Exit 1"
    by (simp add: m split: option.splits)
  have run: "Open_file (FILE a) \<in> set (fst (main w a))"
    "Savefig (fname a) \<in> set (fst (main w a))"
    "savefig w (fname a) = None \<longrightarrow> snd (main w a) = Exit 0"
    using main_valid_run_savefig [OF assms(1,2) assms(4-7)] by simp_all
  obtain evs' mm ta ftau where l: "load w a = (evs', Inr (mm, ta, ftau))"
    and sh: "shape mm = (length vband, length rtoa, length ta, length alt)"
    using load_valid_file [OF assms(1,2)] by blast
  have nb: "band a < 0 \<longrightarrow>
       miniplot (savefig w) rtoa ta mm alt vband (fname a) (band a) (level a) ftau
         (verbose a) (all a) =
       miniplot (savefig w) rtoa ta mm alt vband (fname a) (band a + 13) (level a) ftau
         (verbose a) (all a)"
    using miniplot_negative_band [OF sh, of "band a"] assms(4) by (simp add: length_vband)
  have nl: "level a < 0 \<longrightarrow>
       miniplot (savefig w) rtoa ta mm alt vband (fname a) (band a) (level a) ftau
         (verbose a) (all a) =
       miniplot (savefig w) rtoa ta mm alt vband (fname a) (band a) (level a + 4) ftau
         (verbose a) (all a)"
    using miniplot_negative_level [OF sh, of "level a"] assms(6) by (simp add: length_alt)
  from run ne l nb nl show ?thesis by blast
qed

theorem negative_index_counts_from_end_witness:
  "read_file \<lparr>read_file = \<lambda>f. Inr (replicate 28080 0), savefig = \<lambda>f. None\<rparr> ''sample.minilut''
     = Inr (replicate 28080 0)
   \<and> length (replicate 28080 (0::real)) = 13 * length rtoa * 27 * 4
   \<and> (- 1 :: int) < 0 \<and> (- 13 :: int) \<le> - 1 \<and> (- 1 :: int) < 13
   \<and> (- 4 :: int) \<le> 0 \<and> (0 :: int) < 4
   \<and> Savefig ''sample.min_B0_L0.png''
       \<in> set (fst (main \<lparr>read_file = \<lambda>f. Inr (replicate 28080 0), savefig = \<lambda>f. None\<rparr>
           \<lparr>FILE = ''sample.minilut'', verbose = False, band = - 1, level = 0, all = False\<rparr>))
   \<and> snd (main \<lparr>read_file = \<lambda>f. Inr (replicate 28080 0), savefig = \<lambda>f. None\<rparr>
           \<lparr>FILE = ''sample.minilut'', verbose = False, band = - 1, level = 0, all = False\<rparr>)
       = Exit 0"
proof -
  let ?w = "\<lparr>read_file = \<lambda>f. Inr (replicate 28080 0), savefig = \<lambda>f. None\<rparr>"
  let ?a = "\<lparr>FILE = ''sample.minilut'', verbose = False, band = - 1, level = 0, all = False\<rparr>"
  have f: "fname ?a = ''sample.min_B0_L0.png''"
    by (simp add: fname_def str_int_def str_nat.simps digit_char_def)
  show ?thesis
    using negative_index_counts_from_end [of ?w ?a "replicate 28080 0"]
    by (simp add: length_rtoa f)
qed

text \<open>
  Below \<open>-13\<close> a negative band index still passes the check and the file is opened, but
  no plot is drawn: \<open>vband[-14]\<close> raises IndexError.
\<close>

theorem negative_band_counterexample:
  "(- 14 :: int) < 0
   \<and> main \<lparr>read_file = \<lambda>f. Inr (replicate 28080 0), savefig = \<lambda>f. None\<rparr>
        \<lparr>FILE = ''sample.minilut'', verbose = False, band = - 14, level = 0, all = False\<rparr>
     = ([Open_file ''sample.minilut''], Uncaught IndexError)"
proof -
  let ?w = "\<lparr>read_file = \<lambda>f. Inr (replicate 28080 0), savefig = \<lambda>f. None\<rparr>"
  let ?a = "\<lparr>FILE = ''sample.minilut'', verbose = False, band = - 14, level = 0, all = False\<rparr>"
  have l: "load ?w ?a =
      ([Open_file ''sample.minilut''],
       Inr (\<lparr>shape = (13, 20, 27, 4), data = replicate 28080 0\<rparr>, tau30, ''LUT30''))"
    using load_first_shape [of ?w ?a "replicate 28080 0"] by (simp add: length_rtoa)
  have mp: "miniplot (savefig ?w) rtoa tau30 \<lparr>shape = (13, 20, 27, 4), data = replicate 28080 0\<rparr>
      alt vband (fname ?a) (band ?a) (level ?a) ''LUT30'' (verbose ?a) (all ?a)
      = ([], Some IndexError)"
    by (rule miniplot_index_error) (simp add: length_vband)
  have "main ?w ?a = ([Open_file ''sample.minilut''], Uncaught IndexError)"
    using main_after_load [OF l _ _ mp] by simp
  then show ?thesis by simp
qed

subsection \<open>The warnings of the monotony test\<close>

lemma reshape_shape: "reshape buf a b c d = Inr m \<Longrightarrow> shape m = (a, b, c, d)"
  by (auto simp add: reshape_def split: if_splits)

lemma is_nonmonotone_warning_warning: "is_nonmonotone_warning (nonmonotone_warning v)"
  by (simp add: nonmonotone_warning_def)

lemma warnings_save_and_show:
  "filter is_nonmonotone_warning (fst (save_and_show save fn verb drawn)) =
   filter is_nonmonotone_warning drawn"
  by (simp add: save_and_show_def split: option.splits)

lemma constant_not_monotone: "2 \<le> n \<Longrightarrow> \<not> monotony (replicate n c)"
proof -
  assume "2 \<le> n"
  then have "Suc 0 < length (replicate n c)" "replicate n c ! 0 = replicate n c ! Suc 0"
    by simp_all
  then show ?thesis
    unfolding monotony_iff_pairs by (metis less_irrefl)
qed

lemma tau30_index_8: "nonmonotone_warning (tau30 ! 8) = Print ''WARNING: non-monotone fitting for AOT=0.50''"
proof -
  have h: "tau30 ! 8 = 1 / 2"
    by (simp add: tau30_def tau15_def linspace_def nth_append)
  show ?thesis
    unfolding h
    by (simp add: nonmonotone_warning_def fmt_2f_def round_half_even_def str_nat.simps
        two_digits_def digit_char_def Let_def)
qed

lemma warnings_of_step:
  assumes "slice m b t l = Inr s" and "getitem ta t = Inr v" and "length s = length rt"
  shows "filter is_nonmonotone_warning (fst (plot_loop rt ta m b l (t # ts))) =
           (if monotony s then [] else [nonmonotone_warning v]) @
           filter is_nonmonotone_warning (fst (plot_loop rt ta m b l ts))"
    and "snd (plot_loop rt ta m b l (t # ts)) = snd (plot_loop rt ta m b l ts)"
  by (simp_all del: plot_loop.simps add: plot_loop_step [OF assms] is_nonmonotone_warning_warning)

text \<open>A table with such slices: the value at flat index \<open>k\<close> is 0 where the AOT index is 8 and \<open>k\<close> elsewhere.\<close>

lemma sample_table_slice:
  assumes "0 \<le> t" and "t < 27"
  shows "slice \<lparr>shape = (13, 20, 27, 4),
                data = map (\<lambda>k. if k div 4 mod 27 = 8 then 0 else real k) [0 ..< 28080]\<rparr> 0 t 0
         = Inr (map (\<lambda>r. if nat t = 8 then 0 else real ((r * 27 + nat t) * 4)) [0 ..< 20])"
proof -
  have "r < 20 \<Longrightarrow>
      map (\<lambda>k. if k div 4 mod 27 = 8 then 0 else real k) [0 ..< 28080] ! ((r * 27 + nat t) * 4)
      = (if nat t = 8 then 0 else real ((r * 27 + nat t) * 4))" for r
  proof -
    assume r: "r < 20"
    have lt: "(r * 27 + nat t) * 4 < 28080" using r assms by simp
    have md: "(r * 27 + nat t) * 4 div 4 mod 27 = nat t" using assms by simp
    show ?thesis
      using lt by (simp only: nth_map_upt minus_nat.diff_0 add_0 md)
  qed
  then show ?thesis
    using assms by (simp add: slice_def py_index_def)
qed

lemma sample_table_increasing:
  assumes "0 \<le> t" and "t < 27" and "t \<noteq> 8"
  shows "\<exists>s. slice \<lparr>shape = (13, 20, 27, 4),
                data = map (\<lambda>k. if k div 4 mod 27 = 8 then 0 else real k) [0 ..< 28080]\<rparr> 0 t 0
              = Inr s \<and> (\<forall>i. Suc i < length s \<longrightarrow> s ! i < s ! Suc i)"
proof -
  have "nat t \<noteq> 8" using assms by auto
  then show ?thesis
    by (simp add: sample_table_slice [OF assms(1,2)])
qed

text \<open>
  Claim C7. Take a table of shape \<open>(13, len(rtoa), 27, 4)\<close> whose slice \<open>lut[0, :, 8, 0]\<close>
  is constant and whose slices \<open>lut[0, :, t, 0]\<close> for the other indices 0, 16, 24, 25, 26
  of the default sampling are strictly increasing. Plotting band 0 at level 0 with the
  default sampling prints exactly one warning of the monotony test, the one for
  \<open>tau[8] = 0.50\<close>.
\<close>

theorem one_warning_for_constant_slice:
  assumes "reshape buf (length nband) (length rtoa) (length tau30) (length alt) = Inr m"
    and "\<exists>c. slice m 0 8 0 = Inr (replicate (length rtoa) c)"
    and "\<forall>t \<in> {0, 16, 24, 25, 26}.
           \<exists>s. slice m 0 t 0 = Inr s \<and> (\<forall>i. Suc i < length s \<longrightarrow> s ! i < s ! Suc i)"
  shows "filter is_nonmonotone_warning
           (fst (miniplot save rtoa tau30 m alt vband fn 0 0 ''LUT30'' verb False))
         = [Print ''WARNING: non-monotone fitting for AOT=0.50'']"
proof -
  have sh: "shape m = (length vband, length rtoa, length tau30, length alt)"
    using reshape_shape [OF assms(1)] by (simp add: axis_lengths)
  have len: "slice m 0 t 0 = Inr s \<Longrightarrow> length s = length rtoa" for t s
    using sh by (auto simp add: slice_def split: sum.splits)
  have inc: "t \<in> {0, 16, 24, 25, 26} \<Longrightarrow>
      \<exists>s. slice m 0 t 0 = Inr s \<and> length s = length rtoa \<and> monotony s" for t
    using assms(3) len monotony_iff_pairs by blast
  obtain s0 where s0: "slice m 0 0 0 = Inr s0" "length s0 = length rtoa" "monotony s0"
    using inc [of 0] by auto
  obtain s16 where s16: "slice m 0 16 0 = Inr s16" "length s16 = length rtoa" "monotony s16"
    using inc [of 16] by auto
  obtain s24 where s24: "slice m 0 24 0 = Inr s24" "length s24 = length rtoa" "monotony s24"
    using inc [of 24] by auto
  obtain s25 where s25: "slice m 0 25 0 = Inr s25" "length s25 = length rtoa" "monotony s25"
    using inc [of 25] by auto
  obtain s26 where s26: "slice m 0 26 0 = Inr s26" "length s26 = length rtoa" "monotony s26"
    using inc [of 26] by auto
  obtain c where s8: "slice m 0 8 0 = Inr (replicate (length rtoa) c)"
    using assms(2) by blast
  have n8: "\<not> monotony (replicate (length rtoa) c)"
    by (rule constant_not_monotone) (simp add: length_rtoa)
  have g: "0 \<le> t \<Longrightarrow> t < 27 \<Longrightarrow> getitem tau30 t = Inr (tau30 ! nat t)" for t
    by (rule getitem_nonneg) (simp_all add: length_tau30)
  have w: "filter is_nonmonotone_warning
             (fst (plot_loop rtoa tau30 m 0 0 [0, 8, 16, 24, 25, 26]))
           = [nonmonotone_warning (tau30 ! 8)]"
    using n8
    by (simp del: plot_loop.simps(2) add: warnings_of_step(1) [OF s0(1) g s0(2)] s0(3)
        warnings_of_step(1) [OF s8 g] 
        warnings_of_step(1) [OF s16(1) g s16(2)] s16(3)
        warnings_of_step(1) [OF s24(1) g s24(2)] s24(3)
        warnings_of_step(1) [OF s25(1) g s25(2)] s25(3)
        warnings_of_step(1) [OF s26(1) g s26(2)] s26(3))
  have r: "snd (plot_loop rtoa tau30 m 0 0 [0, 8, 16, 24, 25, 26]) = None"
    by (rule plot_loop_completes [OF sh]) (simp_all add: axis_lengths)
  obtain evs where evs: "plot_loop rtoa tau30 m 0 0 [0, 8, 16, 24, 25, 26] = (evs, None)"
    using r by (cases "plot_loop rtoa tau30 m 0 0 [0, 8, 16, 24, 25, 26]") simp
  obtain wl where wl: "getitem vband 0 = Inr wl"
    using getitem_in_range [of vband 0] by (auto simp add: length_vband)
  obtain z where z: "getitem alt 0 = Inr z"
    using getitem_in_range [of alt 0] by (auto simp add: length_alt)
  obtain lo where lo: "py_min rtoa = Inr lo"
    using py_min_nonempty [OF rtoa_nonempty] by blast
  obtain hi where hi: "py_max rtoa = Inr hi"
    using py_max_nonempty [OF rtoa_nonempty] by blast
  have ts: "tau_sampling ''LUT30'' False tau30 = Inr [0, 8, 16, 24, 25, 26]"
    by (simp add: tau_sampling_def)
  have "miniplot save rtoa tau30 m alt vband fn 0 0 ''LUT30'' verb False =
          save_and_show save fn verb ([Title wl z, Plot_identity lo hi] @ evs)"
    by (rule miniplot_unfold [OF wl z lo hi ts evs])
  then have "filter is_nonmonotone_warning
           (fst (miniplot save rtoa tau30 m alt vband fn 0 0 ''LUT30'' verb False))
         = filter is_nonmonotone_warning evs"
    by (simp add: warnings_save_and_show)
  also have "\<dots> = [nonmonotone_warning (tau30 ! 8)]"
    using w evs by simp
  finally show ?thesis
    by (simp add: tau30_index_8)
qed

theorem one_warning_for_constant_slice_witness:
  "reshape (map (\<lambda>k. if k div 4 mod 27 = 8 then 0 else real k) [0 ..< 28080])
     (length nband) (length rtoa) (length tau30) (length alt)
     = Inr \<lparr>shape = (13, 20, 27, 4),
            data = map (\<lambda>k. if k div 4 mod 27 = 8 then 0 else real k) [0 ..< 28080]\<rparr>
   \<and> slice \<lparr>shape = (13, 20, 27, 4),
            data = map (\<lambda>k. if k div 4 mod 27 = 8 then 0 else real k) [0 ..< 28080]\<rparr> 0 8 0
     = Inr (replicate (length rtoa) 0)
   \<and> slice \<lparr>shape = (13, 20, 27, 4),
            data = map (\<lambda>k. if k div 4 mod 27 = 8 then 0 else real k) [0 ..< 28080]\<rparr> 0 0 0
     = Inr (map (\<lambda>r. real (r * 108)) [0 ..< 20])
   \<and> slice \<lparr>shape = (13, 20, 27, 4),
            data = map (\<lambda>k. if k div 4 mod 27 = 8 then 0 else real k) [0 ..< 28080]\<rparr> 0 16 0
     = Inr (map (\<lambda>r. real (r * 108 + 64)) [0 ..< 20])
   \<and> slice \<lparr>shape = (13, 20, 27, 4),
            data = map (\<lambda>k. if k div 4 mod 27 = 8 then 0 else real k) [0 ..< 28080]\<rparr> 0 26 0
     = Inr (map (\<lambda>r. real (r * 108 + 104)) [0 ..< 20])
   \<and> monotony (map (\<lambda>r. real (r * 108)) [0 ..< 20])
   \<and> filter is_nonmonotone_warning
        (fst (miniplot (\<lambda>f. None) rtoa tau30
           \<lparr>shape = (13, 20, 27, 4),
            data = map (\<lambda>k. if k div 4 mod 27 = 8 then 0 else real k) [0 ..< 28080]\<rparr>
           alt vband ''sample.min_B1_L0.png'' 0 0 ''LUT30'' False False))
     = [Print ''WARNING: non-monotone fitting for AOT=0.50'']"
proof -
  let ?B = "map (\<lambda>k. if k div 4 mod 27 = 8 then 0 else real k) [0 ..< 28080]"
  let ?M = "\<lparr>shape = (13, 20, 27, 4), data = ?B\<rparr>"
  have h1: "reshape ?B (length nband) (length rtoa) (length tau30) (length alt) = Inr ?M"
    by (simp add: reshape_def axis_lengths)
  have h2: "slice ?M 0 8 0 = Inr (replicate (length rtoa) 0)"
    using sample_table_slice [of 8] by (simp add: length_rtoa map_replicate_const)
  have h3: "\<forall>t \<in> {0, 16, 24, 25, 26}.
         \<exists>s. slice ?M 0 t 0 = Inr s \<and> (\<forall>i. Suc i < length s \<longrightarrow> s ! i < s ! Suc i)"
    using sample_table_increasing by simp
  have h2': "\<exists>c. slice ?M 0 8 0 = Inr (replicate (length rtoa) c)"
    using h2 by blast
  have s0: "slice ?M 0 0 0 = Inr (map (\<lambda>r. real (r * 108)) [0 ..< 20])"
    using sample_table_slice [of 0] by simp
  have s16: "slice ?M 0 16 0 = Inr (map (\<lambda>r. real (r * 108 + 64)) [0 ..< 20])"
    using sample_table_slice [of 16] by simp
  have s26: "slice ?M 0 26 0 = Inr (map (\<lambda>r. real (r * 108 + 104)) [0 ..< 20])"
    using sample_table_slice [of 26] by simp
  have m0: "monotony (map (\<lambda>r. real (r * 108)) [0 ..< 20])"
    unfolding monotony_iff_pairs by simp
  from one_warning_for_constant_slice [OF h1 h2' h3] h1 h2 s0 s16 s26 m0 show ?thesis
    by blast
qed

end
